theory Spec2Isabelle
  imports Main
begin

section \<open>The key-value store\<close>

text \<open>
  The script talks to one redis server through two clients, each bound to a numbered
  database. A key of a database holds either a string (written by \<open>SET\<close>) or a set of
  members (written by \<open>SADD\<close>); a command used on a key of the other kind is answered with
  an error and changes nothing. A server that cannot be reached answers every command
  with an error. The console is part of the state because the script reports through it.
\<close>

datatype rvalue = Str string | Members "string set"

datatype error = ConnectionError | WrongType | TypeError

record world =
  up :: bool
  dbs :: "nat \<Rightarrow> string \<Rightarrow> rvalue option"
  console :: "string list"

definition store :: "nat \<Rightarrow> string \<Rightarrow> rvalue \<Rightarrow> world \<Rightarrow> world" where
  "store d k v w = w\<lparr>dbs := (dbs w)(d := (dbs w d)(k \<mapsto> v))\<rparr>"

definition console_log :: "string \<Rightarrow> world \<Rightarrow> world" where
  "console_log line w = w\<lparr>console := console w @ [line]\<rparr>"

definition redis_set :: "nat \<Rightarrow> string \<Rightarrow> string \<Rightarrow> world \<Rightarrow> (error + unit) \<times> world" where
  "redis_set d k v w =
     (if \<not> up w then (Inl ConnectionError, w)
      else (Inr (), store d k (Str v) w))"

definition redis_get :: "nat \<Rightarrow> string \<Rightarrow> world \<Rightarrow> (error + string option) \<times> world" where
  "redis_get d k w =
     (if \<not> up w then (Inl ConnectionError, w)
      else (case dbs w d k of
              None \<Rightarrow> (Inr None, w)
            | Some (Str v) \<Rightarrow> (Inr (Some v), w)
            | Some (Members S) \<Rightarrow> (Inl WrongType, w)))"

definition redis_sadd :: "nat \<Rightarrow> string \<Rightarrow> string \<Rightarrow> world \<Rightarrow> (error + nat) \<times> world" where
  "redis_sadd d k m w =
     (if \<not> up w then (Inl ConnectionError, w)
      else (case dbs w d k of
              None \<Rightarrow> (Inr 1, store d k (Members {m}) w)
            | Some (Members S) \<Rightarrow>
                (Inr (if m \<in> S then 0 else 1), store d k (Members (insert m S)) w)
            | Some (Str v) \<Rightarrow> (Inl WrongType, w)))"

definition redis_smembers :: "nat \<Rightarrow> string \<Rightarrow> world \<Rightarrow> (error + string set) \<times> world" where
  "redis_smembers d k w =
     (if \<not> up w then (Inl ConnectionError, w)
      else (case dbs w d k of
              None \<Rightarrow> (Inr {}, w)
            | Some (Members S) \<Rightarrow> (Inr S, w)
            | Some (Str v) \<Rightarrow> (Inl WrongType, w)))"

section \<open>Promises and deferred calls\<close>

text \<open>
  \<open>add\<close>, \<open>lookup\<close> and \<open>getTextFromFiles\<close> build arrays of functions of one callback
  parameter, \<open>function(cb) { ... }\<close>, and hand the array to \<open>Promise.all\<close>. A function of
  this kind is a value: the call in its body happens when somebody applies the function.
  \<open>Promise.all\<close> does not: it awaits the elements that are promises (objects with a
  \<open>then\<close> method) and passes every other element through unchanged, so for an array of
  plain functions, or of functions and \<open>undefined\<close>, the promise is fulfilled with that
  same array.

  A deferred store call, \<open>function(cb) { self.tokenClient.sadd(token, filename, cb) }\<close>,
  is modelled by the command of its body and the value of \<open>self.tokenClient\<close>: a client,
  or nothing when \<open>self\<close> has no such property.
\<close>

datatype 'a promise = Fulfilled 'a | Rejected error

definition promise_all :: "'a list \<Rightarrow> 'a list promise" where
  "promise_all values = Fulfilled values"

record client =
  db :: nat

datatype command =
    SADD string string
  | SET string string
  | SMEMBERS string

datatype task = Task "client option" command

datatype reply = Count nat | Status | MemberSet "string set"

text \<open>
  What applying a deferred store call to a callback does: the command runs on the
  client's database and the callback receives the error or the reply. Where
  \<open>self.tokenClient\<close> is undefined, reading the method from it throws a \<open>TypeError\<close> and no
  command is sent.
\<close>

fun invoke :: "task \<Rightarrow> world \<Rightarrow> (error + reply) \<times> world" where
  "invoke (Task None cmd) w = (Inl TypeError, w)"
| "invoke (Task (Some c) (SADD k m)) w =
     (case redis_sadd (db c) k m w of
        (Inl e, w') \<Rightarrow> (Inl e, w')
      | (Inr n, w') \<Rightarrow> (Inr (Count n), w'))"
| "invoke (Task (Some c) (SET k v)) w =
     (case redis_set (db c) k v w of
        (Inl e, w') \<Rightarrow> (Inl e, w')
      | (Inr u, w') \<Rightarrow> (Inr Status, w'))"
| "invoke (Task (Some c) (SMEMBERS k)) w =
     (case redis_smembers (db c) k w of
        (Inl e, w') \<Rightarrow> (Inl e, w')
      | (Inr S, w') \<Rightarrow> (Inr (MemberSet S), w'))"

text \<open>
  Applying every function of an array, in the order of the array, and collecting what
  each callback receives. Nothing in the script does this; it is the yardstick for what
  the arrays built by \<open>add\<close> and \<open>lookup\<close> would do to the store.
\<close>

fun invoke_all :: "task list \<Rightarrow> world \<Rightarrow> (error + reply) list \<times> world" where
  "invoke_all [] w = ([], w)"
| "invoke_all (t # ts) w =
     (case invoke t w of (r, w') \<Rightarrow>
        (case invoke_all ts w' of (rs, w'') \<Rightarrow> (r # rs, w'')))"

section \<open>The index\<close>

definition TOKEN_DB :: nat where
  "TOKEN_DB = 0"

definition DOCS_DB :: nat where
  "DOCS_DB = 1"

definition createClient :: "nat \<Rightarrow> client" where
  "createClient d = \<lparr>db = d\<rparr>"

text \<open>
  The methods reach the clients through \<open>this\<close>, so an object is modelled by the two
  properties they read, either of which may be undefined. \<open>Index\<close> is the object that the
  constructor makes. \<open>documentIsProcessed\<close> and \<open>setContainsNoText\<close> are function
  expressions in both variants of the script: their \<open>this\<close> is the index they are called
  on. \<open>add\<close> and \<open>lookup\<close> are function expressions in \<open>samples/textDetection.js\<close>, where
  \<open>self\<close> is again that index, and arrow functions in the async variant, where \<open>self\<close> is
  the \<open>this\<close> of the module, its exports object, whatever index they are called on. The
  exports object has neither client.
\<close>

record index =
  tokenClient :: "client option"
  docsClient :: "client option"

definition Index :: index where
  "Index =
     \<lparr>tokenClient = Some (createClient TOKEN_DB), docsClient = Some (createClient DOCS_DB)\<rparr>"

definition module_exports :: index where
  "module_exports = \<lparr>tokenClient = None, docsClient = None\<rparr>"

text \<open>
  \<open>Array.prototype.indexOf\<close>: the position of the first element equal to the argument,
  or \<open>-1\<close>.
\<close>

fun indexOf_from :: "int \<Rightarrow> 'a list \<Rightarrow> 'a \<Rightarrow> int" where
  "indexOf_from i [] x = -1"
| "indexOf_from i (y # ys) x = (if y = x then i else indexOf_from (i + 1) ys x)"

definition indexOf :: "'a list \<Rightarrow> 'a \<Rightarrow> int" where
  "indexOf xs x = indexOf_from 0 xs x"

definition PUNCTUATION :: "string list" where
  "PUNCTUATION = [''.'', '','', '':'', '''']"

text \<open>
  The tokenizer is the word tokenizer of a third-party package; \<open>add\<close> takes it as the
  parameter \<open>tokenize\<close>. The parameter \<open>self\<close> of \<open>add\<close> and \<open>lookup\<close> is the object that
  \<open>const self = this\<close> binds: \<open>Index\<close> for the function expressions of
  \<open>samples/textDetection.js\<close>, \<open>module_exports\<close> for the arrow functions of the async
  variant.
\<close>

definition add_tasks :: "index \<Rightarrow> (string \<Rightarrow> string list) \<Rightarrow> string \<Rightarrow> string \<Rightarrow> task list" where
  "add_tasks self tokenize filename document =
     map (\<lambda>token. Task (tokenClient self) (SADD token filename))
       (filter (\<lambda>token. indexOf PUNCTUATION token = -1) (tokenize document))
     @ [Task (tokenClient self) (SET filename document)]"

definition add ::
  "index \<Rightarrow> (string \<Rightarrow> string list) \<Rightarrow> string \<Rightarrow> string \<Rightarrow> world \<Rightarrow> task list promise \<times> world" where
  "add self tokenize filename document w =
     (promise_all (add_tasks self tokenize filename document), w)"

definition lower_char :: "char \<Rightarrow> char" where
  "lower_char c =
     (let n = (of_char c :: nat) in if 65 \<le> n \<and> n \<le> 90 then char_of (n + 32) else c)"

definition toLowerCase :: "string \<Rightarrow> string" where
  "toLowerCase word = map lower_char word"

definition lookup_tasks :: "index \<Rightarrow> string list \<Rightarrow> task list" where
  "lookup_tasks self words =
     map (\<lambda>word. Task (tokenClient self) (SMEMBERS (toLowerCase word))) words"

definition lookup :: "index \<Rightarrow> string list \<Rightarrow> world \<Rightarrow> task list promise \<times> world" where
  "lookup self words w = (promise_all (lookup_tasks self words), w)"

text \<open>
  The callback of \<open>documentIsProcessed\<close>, applied to what \<open>GET\<close> delivers: an error, or the
  value (\<open>null\<close> for an absent key). A non-empty string is truthy; the empty string is
  not, and is caught by the second test.
\<close>

definition documentIsProcessed_reply ::
  "string \<Rightarrow> error + string option \<Rightarrow> world \<Rightarrow> (error + bool) \<times> world" where
  "documentIsProcessed_reply filename r w =
     (case r of
        Inl err \<Rightarrow> (Inl err, w)
      | Inr value \<Rightarrow>
          (if value \<noteq> None \<and> value \<noteq> Some ''''
           then (Inr True, console_log (filename @ '' already added to index.'') w)
           else if value = Some ''''
           then (Inr True,
                 console_log (filename @ '' was already checked, and contains no text.'') w)
           else (Inr False, w)))"

definition documentIsProcessed :: "index \<Rightarrow> string \<Rightarrow> world \<Rightarrow> (error + bool) \<times> world" where
  "documentIsProcessed self filename w =
     (case docsClient self of
        None \<Rightarrow> (Inl TypeError, w)
      | Some c \<Rightarrow>
          (case redis_get (db c) filename w of
             (r, w') \<Rightarrow> documentIsProcessed_reply filename r w'))"

definition setContainsNoText :: "index \<Rightarrow> string \<Rightarrow> world \<Rightarrow> (error + unit) \<times> world" where
  "setContainsNoText self filename w =
     (case docsClient self of
        None \<Rightarrow> (Inl TypeError, w)
      | Some c \<Rightarrow> redis_set (db c) filename '''' w)"

section \<open>Batch analysis\<close>

text \<open>
  One entry of the annotation service's reply: an optional error and the list of text
  annotations, each with an optional description.
\<close>

record annotation =
  description :: "string option"

record response =
  error :: "string option"
  textAnnotations :: "annotation list"

text \<open>\<open>text.description || ''\<close>: a missing description contributes the empty string.\<close>

definition extractDescription :: "annotation list \<Rightarrow> string" where
  "extractDescription texts =
     foldl (\<lambda>document text. document @ (case description text of None \<Rightarrow> '''' | Some d \<Rightarrow> d))
       '''' texts"

text \<open>
  The batch functions are those of the async variant, where \<open>index.add\<close> is the arrow
  function: what it builds goes through \<open>module_exports\<close>, not through \<open>index\<close>.
\<close>

datatype called = AddCalled "task list promise" | SetContainsNoTextCalled "error + unit"

definition extractDescriptions ::
  "string \<Rightarrow> index \<Rightarrow> (string \<Rightarrow> string list) \<Rightarrow> response \<Rightarrow> world \<Rightarrow> called \<times> world" where
  "extractDescriptions filename idx tokenize resp w =
     (if length (textAnnotations resp) \<noteq> 0
      then (case add module_exports tokenize filename
                   (extractDescription (textAnnotations resp)) w of
              (p, w') \<Rightarrow> (AddCalled p, w'))
      else (case setContainsNoText idx filename
                   (console_log (filename @ '' had no discernable text.'') w) of
              (r, w') \<Rightarrow> (SetContainsNoTextCalled r, w')))"

text \<open>
  The deferred call \<open>cb => extractDescriptions(filename, index, response, cb)\<close> that
  \<open>getTextFromFiles\<close> builds for a file, and what applying it would do.
\<close>

datatype job = Job string response

fun run_job :: "index \<Rightarrow> (string \<Rightarrow> string list) \<Rightarrow> job \<Rightarrow> world \<Rightarrow> called \<times> world" where
  "run_job idx tokenize (Job filename resp) w = extractDescriptions filename idx tokenize resp w"

text \<open>
  The loop of \<open>getTextFromFiles\<close> over the input files and the service's replies
  \<open>detections\<close>. A file whose reply carries an error is logged and its slot of the array
  stays \<open>undefined\<close>; any other file gets a deferred call. Reading \<open>detections[i]\<close> beyond
  the replies gives \<open>undefined\<close>, and reading its \<open>error\<close> throws. The bookkeeping object
  \<open>textResponse\<close> is local and never read, so it is left out.
\<close>

fun file_tasks :: "string list \<Rightarrow> response list \<Rightarrow> world \<Rightarrow> (error + job option list) \<times> world" where
  "file_tasks [] detections w = (Inr [], w)"
| "file_tasks (filename # rest) [] w = (Inl TypeError, w)"
| "file_tasks (filename # rest) (resp # detections) w =
     (case error resp of
        Some err \<Rightarrow>
          (case file_tasks rest detections
                  (console_log (''API Error for '' @ filename @ '' '' @ err) w) of
             (Inl e, w') \<Rightarrow> (Inl e, w')
           | (Inr tasks, w') \<Rightarrow> (Inr (None # tasks), w'))
      | None \<Rightarrow>
          (case file_tasks rest detections w of
             (Inl e, w') \<Rightarrow> (Inl e, w')
           | (Inr tasks, w') \<Rightarrow> (Inr (Some (Job filename resp) # tasks), w')))"

definition getTextFromFiles ::
  "index \<Rightarrow> string list \<Rightarrow> response list \<Rightarrow> world \<Rightarrow> job option list promise \<times> world" where
  "getTextFromFiles idx inputFiles detections w =
     (case file_tasks inputFiles detections w of
        (Inl e, w') \<Rightarrow> (Rejected e, w')
      | (Inr tasks, w') \<Rightarrow> (promise_all tasks, w'))"

section \<open>A concrete tokenizer and store for examples\<close>

text \<open>
  The package's word tokenizer splits at runs of characters other than letters, digits
  and the underscore and drops empty pieces. This ASCII rendering of it instantiates the
  parameter \<open>tokenize\<close> at concrete inputs only.
\<close>

definition word_char :: "char \<Rightarrow> bool" where
  "word_char c =
     (let n = (of_char c :: nat)
      in (48 \<le> n \<and> n \<le> 57) \<or> (65 \<le> n \<and> n \<le> 90) \<or> n = 95 \<or> (97 \<le> n \<and> n \<le> 122))"

fun split_words :: "string \<Rightarrow> string \<Rightarrow> string list" where
  "split_words acc [] = (if acc = [] then [] else [acc])"
| "split_words acc (c # cs) =
     (if word_char c then split_words (acc @ [c]) cs
      else (if acc = [] then [] else [acc]) @ split_words [] cs)"

definition wordTokenizer :: "string \<Rightarrow> string list" where
  "wordTokenizer text = split_words [] text"

definition empty_world :: world where
  "empty_world = \<lparr>up = True, dbs = (\<lambda>d. Map.empty), console = []\<rparr>"

section \<open>Notions used in the statements\<close>


text \<open>A deferred call is settled in a store when applying it leaves the store as it is.\<close>

definition settled :: "task \<Rightarrow> world \<Rightarrow> bool" where
  "settled t w \<longleftrightarrow> snd (invoke t w) = w"

text \<open>
  The deferred calls that one \<open>add(filename, document)\<close> can build for a given value of
  \<open>self.tokenClient\<close>.
\<close>

definition add_family :: "client option \<Rightarrow> string \<Rightarrow> string \<Rightarrow> task \<Rightarrow> bool" where
  "add_family c filename document t \<longleftrightarrow>
     (\<exists>k. t = Task c (SADD k filename)) \<or> t = Task c (SET filename document)"

text \<open>
  A member is posted under a key that holds a set containing it; a key holds text when
  its value is a string.
\<close>

definition posted :: "nat \<Rightarrow> string \<Rightarrow> string \<Rightarrow> world \<Rightarrow> bool" where
  "posted d k m w \<longleftrightarrow> (\<exists>S. dbs w d k = Some (Members S) \<and> m \<in> S)"

definition holds_text :: "nat \<Rightarrow> string \<Rightarrow> world \<Rightarrow> bool" where
  "holds_text d k w \<longleftrightarrow> (\<exists>v. dbs w d k = Some (Str v))"

section \<open>Facts about the store\<close>

lemma store_same: "store d k v w = w \<longleftrightarrow> dbs w d k = Some v"
proof
  assume "store d k v w = w"
  then have "dbs (store d k v w) d k = dbs w d k" by simp
  then show "dbs w d k = Some v" by (simp add: store_def)
next
  assume "dbs w d k = Some v"
  then have "(dbs w d)(k \<mapsto> v) = dbs w d" by (simp add: map_upd_triv)
  then show "store d k v w = w" by (simp add: store_def)
qed

lemma up_store [simp]: "up (store d k v w) = up w"
  by (simp add: store_def)

lemma console_store [simp]: "console (store d k v w) = console w"
  by (simp add: store_def)

lemma dbs_store: "dbs (store d k v w) d' k' = (if d' = d \<and> k' = k then Some v else dbs w d' k')"
  by (simp add: store_def)

lemma snd_invoke_undefined: "snd (invoke (Task None cmd) w) = w"
  by simp

lemma snd_invoke_sadd:
  "snd (invoke (Task (Some c) (SADD k m)) w) = snd (redis_sadd (db c) k m w)"
  by (simp split: prod.splits sum.splits)

lemma snd_invoke_set:
  "snd (invoke (Task (Some c) (SET k v)) w) = snd (redis_set (db c) k v w)"
  by (simp split: prod.splits sum.splits)

lemma snd_invoke_smembers: "snd (invoke (Task c (SMEMBERS k)) w) = w"
  by (cases c)
    (auto simp add: redis_smembers_def
      split: prod.splits sum.splits option.splits rvalue.splits if_splits)

lemma snd_invoke_all_Cons: "snd (invoke_all (t # ts) w) = snd (invoke_all ts (snd (invoke t w)))"
  by (simp split: prod.splits)

declare invoke.simps [simp del]

lemma up_invoke [simp]: "up (snd (invoke t w)) = up w"
proof (cases t)
  case (Task c cmd)
  show ?thesis
  proof (cases c)
    case None
    with Task show ?thesis by (simp add: snd_invoke_undefined)
  next
    case (Some cl)
    with Task show ?thesis
      by (cases cmd)
        (simp_all add: snd_invoke_sadd snd_invoke_set snd_invoke_smembers redis_sadd_def
          redis_set_def split: option.splits rvalue.splits)
  qed
qed

lemma dbs_invoke_sadd:
  "dbs (snd (invoke (Task (Some c) (SADD k m)) w)) d' k' =
     (if up w \<and> d' = db c \<and> k' = k
      then (case dbs w d' k' of
              None \<Rightarrow> Some (Members {m})
            | Some (Members S) \<Rightarrow> Some (Members (insert m S))
            | Some (Str v) \<Rightarrow> Some (Str v))
      else dbs w d' k')"
  unfolding snd_invoke_sadd
  by (auto simp add: redis_sadd_def dbs_store split: option.splits rvalue.splits)

lemma dbs_invoke_set:
  "dbs (snd (invoke (Task (Some c) (SET k v)) w)) d' k' =
     (if up w \<and> d' = db c \<and> k' = k then Some (Str v) else dbs w d' k')"
  unfolding snd_invoke_set
  by (auto simp add: redis_set_def dbs_store)

subsection \<open>A deferred call reaches only its client's database\<close>



subsection \<open>Settled deferred calls\<close>

lemma settled_undefined: "settled (Task None cmd) w"
  by (simp add: settled_def snd_invoke_undefined)

lemma settled_sadd:
  "settled (Task (Some c) (SADD k m)) w \<longleftrightarrow>
     \<not> up w \<or> (\<exists>v. dbs w (db c) k = Some (Str v))
       \<or> (\<exists>S. dbs w (db c) k = Some (Members S) \<and> m \<in> S)"
  unfolding settled_def snd_invoke_sadd
  by (auto simp add: redis_sadd_def store_same insert_absorb split: option.splits rvalue.splits)

lemma settled_set:
  "settled (Task (Some c) (SET k v)) w \<longleftrightarrow> \<not> up w \<or> dbs w (db c) k = Some (Str v)"
  unfolding settled_def snd_invoke_set
  by (auto simp add: redis_set_def store_same)

lemma settled_self:
  assumes "add_family c filename document t"
  shows "settled t (snd (invoke t w))"
  using assms unfolding add_family_def
  by (cases c)
    (auto simp add: settled_undefined settled_sadd settled_set dbs_invoke_sadd dbs_invoke_set
      split: option.splits rvalue.splits)

lemma settled_preserved:
  assumes "add_family c filename document t" and "add_family c filename document t'"
    and "settled t w"
  shows "settled t (snd (invoke t' w))"
  using assms unfolding add_family_def
  by (cases c)
    (auto simp add: settled_undefined settled_sadd settled_set dbs_invoke_sadd dbs_invoke_set
      split: option.splits rvalue.splits)

lemma settled_through:
  assumes "\<forall>t \<in> set ts. add_family c filename document t"
    and "add_family c filename document t0" and "settled t0 w"
  shows "settled t0 (snd (invoke_all ts w))"
  using assms
proof (induction ts arbitrary: w)
  case Nil
  then show ?case by simp
next
  case (Cons t ts)
  have "settled t0 (snd (invoke t w))"
    using Cons.prems by (simp add: settled_preserved)
  then show ?case
    using Cons by (simp only: snd_invoke_all_Cons) simp
qed

lemma all_settled_after:
  assumes "\<forall>t \<in> set ts. add_family c filename document t"
  shows "\<forall>t \<in> set ts. settled t (snd (invoke_all ts w))"
  using assms
proof (induction ts arbitrary: w)
  case Nil
  then show ?case by simp
next
  case (Cons t ts)
  have fam: "add_family c filename document t"
    and fams: "\<forall>u \<in> set ts. add_family c filename document u"
    using Cons.prems by simp_all
  have "settled t (snd (invoke t w))"
    using fam by (rule settled_self)
  then have head: "settled t (snd (invoke_all ts (snd (invoke t w))))"
    using fams fam by (simp add: settled_through)
  have tail: "\<forall>u \<in> set ts. settled u (snd (invoke_all ts (snd (invoke t w))))"
    using Cons.IH [OF fams] by simp
  show ?case
    using head tail by (simp only: snd_invoke_all_Cons) simp
qed

lemma settled_no_change:
  assumes "\<forall>t \<in> set ts. settled t w"
  shows "snd (invoke_all ts w) = w"
  using assms
proof (induction ts)
  case Nil
  then show ?case by simp
next
  case (Cons t ts)
  then have "snd (invoke t w) = w" by (simp add: settled_def)
  then show ?case
    using Cons by (simp only: snd_invoke_all_Cons) simp
qed

lemma add_tasks_family:
  "\<forall>t \<in> set (add_tasks self tokenize filename document).
     add_family (tokenClient self) filename document t"
  by (auto simp add: add_tasks_def add_family_def)

subsection \<open>The punctuation filter\<close>

lemma indexOf_from_absent: "0 \<le> i \<Longrightarrow> indexOf_from i xs x = -1 \<longleftrightarrow> x \<notin> set xs"
  by (induction xs arbitrary: i) auto

lemma indexOf_absent: "indexOf xs x = -1 \<longleftrightarrow> x \<notin> set xs"
  by (simp add: indexOf_def indexOf_from_absent)

lemma not_punctuation:
  "indexOf PUNCTUATION token = -1 \<longleftrightarrow>
     token \<noteq> ''.'' \<and> token \<noteq> '','' \<and> token \<noteq> '':'' \<and> token \<noteq> ''''"
  by (auto simp add: indexOf_absent PUNCTUATION_def)

subsection \<open>What applying the deferred calls would do\<close>

text \<open>
  Applied to a store, the calls built by \<open>lookup\<close> deliver one reply per word, in order.
  Where \<open>self\<close> has a token client, each reply is the members under the lowercased word,
  and the calls built by \<open>add\<close> post the file under every token that passes the filter,
  as long as the token is not the file's own name and its key does not already hold
  text. Where \<open>self\<close> has none, the calls change nothing. \<open>getTextFromFiles\<close> itself
  never touches a database.
\<close>

lemma invoke_smembers:
  "invoke (Task c (SMEMBERS k)) w = (fst (invoke (Task c (SMEMBERS k)) w), w)"
  using snd_invoke_smembers [of c k w] by (metis prod.collapse)

lemma invoke_all_lookup_tasks:
  "invoke_all (lookup_tasks self words) w =
     (map (\<lambda>word. fst (invoke (Task (tokenClient self) (SMEMBERS (toLowerCase word))) w)) words, w)"
proof (induction words)
  case Nil
  then show ?case by (simp add: lookup_tasks_def)
next
  case (Cons word words)
  obtain r where r: "invoke (Task (tokenClient self) (SMEMBERS (toLowerCase word))) w = (r, w)"
    using invoke_smembers by blast
  show ?case
    using Cons by (simp add: lookup_tasks_def r)
qed

lemma applied_smembers:
  assumes "up w" and "\<forall>v. dbs w (db c) k \<noteq> Some (Str v)"
  shows "fst (invoke (Task (Some c) (SMEMBERS k)) w) =
     Inr (MemberSet (case dbs w (db c) k of Some (Members S) \<Rightarrow> S | _ \<Rightarrow> {}))"
  using assms
  by (auto simp add: invoke.simps redis_smembers_def split: option.splits rvalue.splits)

lemma holds_text_kept:
  assumes "add_family (Some c) filename document t" and "k \<noteq> filename"
  shows "holds_text (db c) k (snd (invoke t w)) = holds_text (db c) k w"
  using assms unfolding add_family_def holds_text_def
  by (auto simp add: dbs_invoke_sadd dbs_invoke_set split: option.splits rvalue.splits if_splits)

lemma posted_kept:
  assumes "add_family (Some c) filename document t" and "k \<noteq> filename"
    and "posted (db c) k filename w"
  shows "posted (db c) k filename (snd (invoke t w))"
  using assms unfolding add_family_def posted_def
  by (auto simp add: dbs_invoke_sadd dbs_invoke_set split: option.splits rvalue.splits)

lemma posted_by_sadd:
  assumes "up w" and "\<not> holds_text (db c) k w"
  shows "posted (db c) k m (snd (invoke (Task (Some c) (SADD k m)) w))"
  using assms unfolding posted_def holds_text_def
  by (auto simp add: dbs_invoke_sadd split: option.splits rvalue.splits)

lemma posted_through:
  assumes "\<forall>t \<in> set ts. add_family (Some c) filename document t" and "k \<noteq> filename"
    and "posted (db c) k filename w"
  shows "posted (db c) k filename (snd (invoke_all ts w))"
  using assms
proof (induction ts arbitrary: w)
  case Nil
  then show ?case by simp
next
  case (Cons t ts)
  have "posted (db c) k filename (snd (invoke t w))"
    using Cons.prems posted_kept [of c filename document t k w] by simp
  then show ?case
    using Cons by (simp only: snd_invoke_all_Cons) simp
qed

lemma applied_add_posts:
  assumes "\<forall>t \<in> set ts. add_family (Some c) filename document t"
    and "Task (Some c) (SADD k filename) \<in> set ts" and "k \<noteq> filename"
    and "up w" and "\<not> holds_text (db c) k w"
  shows "posted (db c) k filename (snd (invoke_all ts w))"
  using assms
proof (induction ts arbitrary: w)
  case Nil
  then show ?case by simp
next
  case (Cons t ts)
  have fams: "\<forall>u \<in> set ts. add_family (Some c) filename document u"
    using Cons.prems by simp
  show ?case
  proof (cases "t = Task (Some c) (SADD k filename)")
    case True
    then have "posted (db c) k filename (snd (invoke t w))"
      using Cons.prems by (simp add: posted_by_sadd)
    then have "posted (db c) k filename (snd (invoke_all ts (snd (invoke t w))))"
      using fams Cons.prems(3) by (simp add: posted_through)
    then show ?thesis by (simp only: snd_invoke_all_Cons)
  next
    case False
    then have mem: "Task (Some c) (SADD k filename) \<in> set ts"
      using Cons.prems by simp
    have fam: "add_family (Some c) filename document t"
      using Cons.prems by simp
    have "\<not> holds_text (db c) k (snd (invoke t w))"
      using Cons.prems holds_text_kept [OF fam, of k w] by simp
    then have "posted (db c) k filename (snd (invoke_all ts (snd (invoke t w))))"
      using Cons.IH [OF fams mem] Cons.prems by simp
    then show ?thesis by (simp only: snd_invoke_all_Cons)
  qed
qed

lemma applied_add_indexes_token:
  assumes "tokenClient self = Some c"
    and "token \<in> set (tokenize document)" and "token \<notin> set PUNCTUATION"
    and "token \<noteq> filename" and "up w" and "\<not> holds_text (db c) token w"
  shows "posted (db c) token filename
           (snd (invoke_all (add_tasks self tokenize filename document) w))"
proof -
  have fams: "\<forall>t \<in> set (add_tasks self tokenize filename document).
      add_family (Some c) filename document t"
    using add_tasks_family [of self tokenize filename document] assms(1) by simp
  have "Task (Some c) (SADD token filename)
      \<in> set (add_tasks self tokenize filename document)"
    using assms by (simp add: add_tasks_def indexOf_absent)
  with fams show ?thesis
    using assms(4-6) by (rule applied_add_posts)
qed


lemma file_tasks_dbs: "dbs (snd (file_tasks inputFiles detections w)) = dbs w"
proof (induction inputFiles detections w rule: file_tasks.induct)
  case (1 detections w)
  then show ?case by simp
next
  case (2 filename rest w)
  then show ?case by simp
next
  case (3 filename rest resp detections w)
  then show ?case
    by (cases "error resp") (auto simp add: console_log_def split: prod.splits sum.splits)
qed

lemma getTextFromFiles_dbs: "dbs (snd (getTextFromFiles idx inputFiles detections w)) = dbs w"
proof (cases "file_tasks inputFiles detections w")
  case (Pair r w')
  then have "dbs w' = dbs w"
    using file_tasks_dbs [of inputFiles detections w] by simp
  with Pair show ?thesis
    by (cases r) (simp_all add: getTextFromFiles_def)
qed

subsection \<open>Evaluation at given inputs\<close>

lemmas store_eval =
  redis_get_def redis_set_def redis_sadd_def redis_smembers_def store_def empty_world_def
  console_log_def invoke.simps

lemmas add_eval =
  add_def add_tasks_def promise_all_def wordTokenizer_def word_char_def indexOf_def
  PUNCTUATION_def Index_def module_exports_def createClient_def TOKEN_DB_def DOCS_DB_def

lemma toLowerCase_Hello: "toLowerCase ''Hello'' = ''hello''"
  by code_simp

lemma toLowerCase_hello: "toLowerCase ''hello'' = ''hello''"
  by code_simp

section \<open>What \<open>add\<close> builds and what it writes\<close>

text \<open>
  Claim C7. For every text, the tokens for which \<open>add\<close> builds a posting-set addition are
  the tokenizer's output without the tokens equal to \<open>.\<close>, \<open>,\<close>, \<open>:\<close> or the empty string,
  in the tokenizer's order and with nothing else removed; the array that \<open>add\<close> returns is
  these additions followed by the store of the full text.
\<close>

theorem add_tokens_without_punctuation:
  "add_tasks self tokenize filename document =
     map (\<lambda>token. Task (tokenClient self) (SADD token filename))
       (filter (\<lambda>token. token \<noteq> ''.'' \<and> token \<noteq> '','' \<and> token \<noteq> '':'' \<and> token \<noteq> '''')
          (tokenize document))
     @ [Task (tokenClient self) (SET filename document)]
   \<and> fst (add self tokenize filename document w) =
       Fulfilled (add_tasks self tokenize filename document)"
  by (simp add: add_tasks_def add_def promise_all_def not_punctuation)


text \<open>
  Claim C8. Calling \<open>add(D, T)\<close> twice leaves every posting set, and the whole store, as
  one call leaves it; the same holds when every write that \<open>add\<close> builds is applied: the
  second round of posting-set additions and the second store of the text change nothing.
\<close>

theorem add_twice_same_as_once:
  "snd (add self tokenize filename document (snd (add self tokenize filename document w))) =
     snd (add self tokenize filename document w)
   \<and> snd (invoke_all (add_tasks self tokenize filename document)
         (snd (invoke_all (add_tasks self tokenize filename document) w))) =
       snd (invoke_all (add_tasks self tokenize filename document) w)"
proof
  show "snd (add self tokenize filename document (snd (add self tokenize filename document w))) =
      snd (add self tokenize filename document w)"
    by (simp add: add_def)
next
  have "\<forall>t \<in> set (add_tasks self tokenize filename document).
      settled t (snd (invoke_all (add_tasks self tokenize filename document) w))"
    using add_tasks_family by (rule all_settled_after)
  then show "snd (invoke_all (add_tasks self tokenize filename document)
        (snd (invoke_all (add_tasks self tokenize filename document) w))) =
      snd (invoke_all (add_tasks self tokenize filename document) w)"
    by (rule settled_no_change)
qed

section \<open>Processed documents\<close>

text \<open>
  Claim C6. When \<open>setContainsNoText(D)\<close> succeeds, the only change to the store is that
  key \<open>D\<close> of the docs database holds the empty string, so no posting set is written, and
  \<open>documentIsProcessed(D)\<close> then reports \<open>D\<close> as processed, on the branch for a file that
  was checked and contains no text.
\<close>

theorem setContainsNoText_then_processed:
  assumes "fst (setContainsNoText Index filename w) = Inr ()"
  shows "dbs (snd (setContainsNoText Index filename w)) =
           (dbs w)(DOCS_DB := (dbs w DOCS_DB)(filename \<mapsto> Str ''''))
         \<and> documentIsProcessed Index filename (snd (setContainsNoText Index filename w)) =
             (Inr True,
              console_log (filename @ '' was already checked, and contains no text.'')
                (snd (setContainsNoText Index filename w)))"
proof -
  from assms have "up w"
    by (simp add: setContainsNoText_def redis_set_def Index_def split: if_splits)
  then show ?thesis
    by (simp add: setContainsNoText_def redis_set_def store_def Index_def createClient_def
        documentIsProcessed_def documentIsProcessed_reply_def redis_get_def)
qed

theorem setContainsNoText_then_processed_witness:
  "fst (setContainsNoText Index ''a.png'' empty_world) = Inr ()
   \<and> dbs (snd (setContainsNoText Index ''a.png'' empty_world)) DOCS_DB ''a.png'' = Some (Str '''')
   \<and> fst (documentIsProcessed Index ''a.png'' (snd (setContainsNoText Index ''a.png'' empty_world))) =
       Inr True"
proof -
  have h: "fst (setContainsNoText Index ''a.png'' empty_world) = Inr ()"
    by (simp add: setContainsNoText_def redis_set_def empty_world_def Index_def)
  show ?thesis
    using h setContainsNoText_then_processed [OF h] by simp
qed

text \<open>
  Claim C10. \<open>documentIsProcessed\<close> hands its callback one boolean: \<open>true\<close> for every value
  that \<open>GET\<close> delivers, the empty string and any other text alike, and \<open>false\<close> when the key
  is absent. Read against the store: a reachable docs database answers \<open>true\<close> for a key
  that holds a string, whatever the string, and \<open>false\<close> for a key that holds nothing.
\<close>

theorem documentIsProcessed_reports_presence:
  "fst (documentIsProcessed_reply filename (Inr value) w) = Inr (value \<noteq> None)
   \<and> fst (documentIsProcessed Index filename w) =
       (if \<not> up w then Inl ConnectionError
        else (case dbs w DOCS_DB filename of
                None \<Rightarrow> Inr False
              | Some (Str text) \<Rightarrow> Inr True
              | Some (Members S) \<Rightarrow> Inl WrongType))"
  by (simp add: documentIsProcessed_def documentIsProcessed_reply_def redis_get_def
      Index_def createClient_def split: option.splits rvalue.splits)

section \<open>The deferred calls are never applied\<close>

text \<open>
  Claim C1. On an empty store, \<open>add('a.png', 'Hello')\<close> followed by
  \<open>documentIsProcessed('a.png')\<close> answers \<open>false\<close>, with either binding of \<open>self\<close>: \<open>add\<close>
  writes nothing. Where \<open>self\<close> is the index, the store of the text that \<open>add\<close> builds
  names the token client, while \<open>documentIsProcessed\<close> reads the docs client; where
  \<open>self\<close> is the exports object, it names no client. So the answer stays \<open>false\<close> even
  when every write built by \<open>add\<close> is applied.
\<close>

theorem add_then_documentIsProcessed_false:
  "fst (documentIsProcessed Index ''a.png''
          (snd (add Index wordTokenizer ''a.png'' ''Hello'' empty_world))) = Inr False
   \<and> fst (documentIsProcessed Index ''a.png''
          (snd (add module_exports wordTokenizer ''a.png'' ''Hello'' empty_world))) = Inr False
   \<and> fst (documentIsProcessed Index ''a.png''
          (snd (invoke_all (add_tasks Index wordTokenizer ''a.png'' ''Hello'') empty_world))) =
       Inr False
   \<and> fst (documentIsProcessed Index ''a.png''
          (snd (invoke_all (add_tasks module_exports wordTokenizer ''a.png'' ''Hello'')
                  empty_world))) =
       Inr False"
  by (simp add: add_eval store_eval documentIsProcessed_def documentIsProcessed_reply_def)

text \<open>
  Claim C3. \<open>add('a.txt', 'hello')\<close> against a server that answers every command with an
  error is fulfilled with the array of its two deferred writes, with either binding of
  \<open>self\<close>. Each write would fail if applied: with the server's error where \<open>self\<close> is the
  index, with a \<open>TypeError\<close> where \<open>self\<close> is the exports object. Against a healthy empty
  store \<open>add\<close> is fulfilled as well, and neither the posting set of \<open>hello\<close> nor the text
  of \<open>a.txt\<close> has been written.
\<close>

theorem add_fulfilled_without_writing:
  "add Index wordTokenizer ''a.txt'' ''hello'' (empty_world\<lparr>up := False\<rparr>) =
     (Fulfilled [Task (Some \<lparr>db = 0\<rparr>) (SADD ''hello'' ''a.txt''),
                 Task (Some \<lparr>db = 0\<rparr>) (SET ''a.txt'' ''hello'')],
      empty_world\<lparr>up := False\<rparr>)
   \<and> add module_exports wordTokenizer ''a.txt'' ''hello'' (empty_world\<lparr>up := False\<rparr>) =
     (Fulfilled [Task None (SADD ''hello'' ''a.txt''), Task None (SET ''a.txt'' ''hello'')],
      empty_world\<lparr>up := False\<rparr>)
   \<and> fst (invoke_all (add_tasks Index wordTokenizer ''a.txt'' ''hello'')
          (empty_world\<lparr>up := False\<rparr>)) =
       [Inl ConnectionError, Inl ConnectionError]
   \<and> fst (invoke_all (add_tasks module_exports wordTokenizer ''a.txt'' ''hello'')
          (empty_world\<lparr>up := False\<rparr>)) =
       [Inl TypeError, Inl TypeError]
   \<and> dbs (snd (add Index wordTokenizer ''a.txt'' ''hello'' empty_world)) TOKEN_DB ''hello'' = None
   \<and> dbs (snd (add Index wordTokenizer ''a.txt'' ''hello'' empty_world)) TOKEN_DB ''a.txt'' = None
   \<and> dbs (snd (add module_exports wordTokenizer ''a.txt'' ''hello'' empty_world)) TOKEN_DB
       ''hello'' = None
   \<and> dbs (snd (add module_exports wordTokenizer ''a.txt'' ''hello'' empty_world)) TOKEN_DB
       ''a.txt'' = None"
  by (simp add: add_eval store_eval)

text \<open>
  Claim C4. After \<open>add('a.txt', 'hello')\<close> on an empty store, \<open>lookup(['hello'])\<close> is
  fulfilled with one deferred \<open>SMEMBERS\<close> call and the posting set of \<open>hello\<close> does not
  exist, with either binding of \<open>self\<close>. Applying every deferred call does not help.
  Where \<open>self\<close> is the index and the text is \<open>Hello World\<close>, the posting is stored under
  \<open>Hello\<close> and the query for \<open>Hello\<close> reads the empty set of \<open>hello\<close>; where \<open>self\<close> is the
  exports object, nothing is stored and the query throws.
\<close>

theorem add_then_lookup_misses:
  "fst (lookup Index [''hello''] (snd (add Index wordTokenizer ''a.txt'' ''hello'' empty_world))) =
     Fulfilled [Task (Some \<lparr>db = 0\<rparr>) (SMEMBERS ''hello'')]
   \<and> fst (lookup module_exports [''hello'']
          (snd (add module_exports wordTokenizer ''a.txt'' ''hello'' empty_world))) =
       Fulfilled [Task None (SMEMBERS ''hello'')]
   \<and> dbs (snd (add Index wordTokenizer ''a.txt'' ''hello'' empty_world)) TOKEN_DB ''hello'' = None
   \<and> dbs (snd (add module_exports wordTokenizer ''a.txt'' ''hello'' empty_world)) TOKEN_DB
       ''hello'' = None
   \<and> dbs (snd (invoke_all (add_tasks Index wordTokenizer ''a.txt'' ''Hello World'') empty_world))
       TOKEN_DB ''Hello'' = Some (Members {''a.txt''})
   \<and> fst (invoke_all (lookup_tasks Index [''Hello''])
          (snd (invoke_all (add_tasks Index wordTokenizer ''a.txt'' ''Hello World'') empty_world))) =
       [Inr (MemberSet {})]
   \<and> dbs (snd (invoke_all (add_tasks module_exports wordTokenizer ''a.txt'' ''hello'')
          empty_world)) TOKEN_DB ''hello'' = None
   \<and> fst (invoke_all (lookup_tasks module_exports [''hello''])
          (snd (invoke_all (add_tasks module_exports wordTokenizer ''a.txt'' ''hello'')
                  empty_world))) =
       [Inl TypeError]"
  by (simp add: add_eval store_eval lookup_def lookup_tasks_def toLowerCase_Hello
      toLowerCase_hello)

text \<open>
  Claim C5. With \<open>a.txt\<close> in the posting set of \<open>hello\<close>, \<open>lookup(['Hello'])\<close> is fulfilled
  with one deferred \<open>SMEMBERS\<close> call for \<open>hello\<close>, not with a set, with either binding of
  \<open>self\<close>. Where \<open>self\<close> is the index, the set \<open>{a.txt}\<close> is what applying that call would
  deliver; where \<open>self\<close> is the exports object, applying it throws.
\<close>

theorem lookup_returns_deferred_calls:
  "fst (lookup Index [''Hello''] (store TOKEN_DB ''hello'' (Members {''a.txt''}) empty_world)) =
     Fulfilled [Task (Some \<lparr>db = 0\<rparr>) (SMEMBERS ''hello'')]
   \<and> fst (lookup module_exports [''Hello'']
          (store TOKEN_DB ''hello'' (Members {''a.txt''}) empty_world)) =
       Fulfilled [Task None (SMEMBERS ''hello'')]
   \<and> fst (invoke_all (lookup_tasks Index [''Hello''])
          (store TOKEN_DB ''hello'' (Members {''a.txt''}) empty_world)) =
       [Inr (MemberSet {''a.txt''})]
   \<and> fst (invoke_all (lookup_tasks module_exports [''Hello''])
          (store TOKEN_DB ''hello'' (Members {''a.txt''}) empty_world)) =
       [Inl TypeError]"
  by (simp add: store_eval promise_all_def Index_def module_exports_def createClient_def
      TOKEN_DB_def lookup_def lookup_tasks_def toLowerCase_Hello)

text \<open>
  Claim C9. For the files \<open>a.png\<close>, \<open>b.png\<close>, \<open>c.png\<close> with replies an error, one annotation
  \<open>Hello\<close> and no annotation, \<open>getTextFromFiles\<close> logs the error of \<open>a.png\<close> and is fulfilled
  with an empty slot and the two deferred calls of \<open>b.png\<close> and \<open>c.png\<close>. Neither is
  applied: nothing else is logged and \<open>c.png\<close> has no entry in the docs database, which
  applying its deferred call would have written.
\<close>

theorem getTextFromFiles_defers_indexing:
  "fst (getTextFromFiles Index [''a.png'', ''b.png'', ''c.png'']
          [\<lparr>error = Some ''quota'', textAnnotations = []\<rparr>,
           \<lparr>error = None, textAnnotations = [\<lparr>description = Some ''Hello''\<rparr>]\<rparr>,
           \<lparr>error = None, textAnnotations = []\<rparr>] empty_world) =
     Fulfilled [None,
       Some (Job ''b.png'' \<lparr>error = None, textAnnotations = [\<lparr>description = Some ''Hello''\<rparr>]\<rparr>),
       Some (Job ''c.png'' \<lparr>error = None, textAnnotations = []\<rparr>)]
   \<and> console (snd (getTextFromFiles Index [''a.png'', ''b.png'', ''c.png'']
          [\<lparr>error = Some ''quota'', textAnnotations = []\<rparr>,
           \<lparr>error = None, textAnnotations = [\<lparr>description = Some ''Hello''\<rparr>]\<rparr>,
           \<lparr>error = None, textAnnotations = []\<rparr>] empty_world)) =
       [''API Error for a.png quota'']
   \<and> dbs (snd (getTextFromFiles Index [''a.png'', ''b.png'', ''c.png'']
          [\<lparr>error = Some ''quota'', textAnnotations = []\<rparr>,
           \<lparr>error = None, textAnnotations = [\<lparr>description = Some ''Hello''\<rparr>]\<rparr>,
           \<lparr>error = None, textAnnotations = []\<rparr>] empty_world)) DOCS_DB ''c.png'' = None
   \<and> dbs (snd (run_job Index wordTokenizer
          (Job ''c.png'' \<lparr>error = None, textAnnotations = []\<rparr>) empty_world)) DOCS_DB ''c.png'' =
       Some (Str '''')"
  by (simp add: getTextFromFiles_dbs)
    (simp add: getTextFromFiles_def extractDescriptions_def setContainsNoText_def
      promise_all_def Index_def createClient_def DOCS_DB_def store_eval)

end
